theory Spec2Isabelle
  imports Complex_Main "HOL-Library.Word"
begin

section \<open>The game-core lifecycle manager (source/fltkui/jgmanager.cpp)\<close>

text \<open>
  The manager drives an emulator core through a C API (the \<open>jg_*\<close> functions). The core,
  the hasher, the log driver, the environment and the file system are outside this file:
  every call the manager makes to them is recorded, in order, in the field \<open>calls\<close> of the
  state, and every value they return is read from a parameter (\<open>core\<close>, \<open>host\<close>).
\<close>

subsection \<open>Data\<close>

type_synonym int32 = "32 word"
type_synonym uint8 = "8 word"

text \<open>
  \<open>jg_pathinfo_t\<close> and \<open>jg_fileinfo_t\<close> hold \<open>const char *\<close> pointers into strings owned by
  the manager; the model stores what each pointer points to when the record is read.
\<close>

record jg_pathinfo_t =
  pi_base :: string
  pi_bios :: string
  pi_user :: string
  pi_save :: string
  pi_core :: string

record jg_fileinfo_t =
  fi_data :: "uint8 list"
  fi_size :: nat
  fi_crc :: "32 word"
  fi_md5 :: string
  fi_path :: string
  fi_name :: string
  fi_fname :: string

text \<open>
  A setting descriptor of the core. This file reads its \<open>name\<close> only (a C string, so its
  contents up to the terminator); the other fields are behind the record's extension.
\<close>

record jg_setting_t =
  name :: string

text \<open>
  The severity tags of the core API (its header is not among the sources); the manager
  uses \<open>JG_LOG_SCR\<close>, the screen severity, only.
\<close>

datatype jg_loglevel = JG_LOG_DBG | JG_LOG_INF | JG_LOG_WRN | JG_LOG_ERR | JG_LOG_SCR

text \<open>Every call that leaves the manager: the core API, the log driver, the file system.\<close>

datatype event =
    JgSetPaths jg_pathinfo_t
  | JgGetSettings
  | JgSetCbFrametime
  | JgSetCbLog
  | JgInit
  | JgDeinit
  | JgGameUnload
  | JgSetGameinfo jg_fileinfo_t
  | JgGameLoad
  | JgExecFrame
  | JgReset int32
  | JgStateLoad string
  | JgStateSave string
  | JgMediaSelect
  | JgMediaInsert
  | JgCheatClear
  | JgCheatSet string
  | JgRehash
  | CreateDirectories string
  | LogDriverLog jg_loglevel string

text \<open>
  What the core returns. The core is stateful, so each return value may depend on the
  calls made so far. \<open>ret_jg_get_settings\<close> is the address of the first descriptor and
  their number; \<open>core_mem\<close> is the descriptor stored at an address (addresses count
  descriptors, as C pointer arithmetic does).
\<close>

record core =
  ret_jg_init :: "event list \<Rightarrow> int32"
  ret_jg_game_load :: "event list \<Rightarrow> int32"
  ret_jg_state_load :: "event list \<Rightarrow> string \<Rightarrow> int32"
  ret_jg_state_save :: "event list \<Rightarrow> string \<Rightarrow> int32"
  ret_jg_get_settings :: "nat \<times> nat"
  core_mem :: "nat \<Rightarrow> jg_setting_t"

text \<open>
  The process environment, the file system, the hasher and the compile-time constant
  \<open>NST_DATADIR\<close>. \<open>fs_create_directories p\<close> is False when
  \<open>std::filesystem::create_directories\<close> throws.
\<close>

record host =
  getenv :: "string \<rightharpoonup> string"
  fs_exists :: "string \<Rightarrow> bool"
  fs_create_directories :: "string \<Rightarrow> bool"
  NST_DATADIR :: string
  hasher_crc :: "uint8 list \<Rightarrow> 32 word"
  hasher_md5 :: "uint8 list \<Rightarrow> string"

text \<open>
  The members of \<open>JGManager\<close>, and \<open>calls\<close>: the calls made so far, oldest first.
  A recorded settings pointer is the address of a descriptor.
\<close>

record state =
  loaded :: bool
  basepath :: string
  savepath :: string
  corepath :: string
  pathinfo :: jg_pathinfo_t
  gameinfo :: jg_fileinfo_t
  gamepath :: string
  gamename :: string
  gamefname :: string
  gamemd5 :: string
  settings :: "nat list"
  calls :: "event list"

text \<open>
  \<open>std::string(nullptr)\<close> (an unset environment variable) and a throwing
  \<open>create_directories\<close> end the constructor.
\<close>

datatype error = NullString | FilesystemError

subsection \<open>Library functions the source calls\<close>

text \<open>
  \<open>std::to_string(int)\<close>: the decimal digits, most significant first, after a minus sign
  for a negative value.
\<close>

definition digit_char :: "nat \<Rightarrow> char" where
  "digit_char d = char_of (48 + d)"

fun digits :: "nat \<Rightarrow> string" where
  "digits n = (if n < 10 then [digit_char n] else digits (n div 10) @ [digit_char (n mod 10)])"

declare digits.simps [simp del]

definition to_string :: "int32 \<Rightarrow> string" where
  "to_string v =
     (if sint v < 0 then CHR ''-'' # digits (nat (- sint v)) else digits (nat (sint v)))"

text \<open>
  \<open>std::filesystem::path::filename\<close> and \<open>stem\<close> on a POSIX path: the last component, and
  that component without its last extension (\<open>.\<close>, \<open>..\<close> and a name whose only dot is its
  first character have no extension).
\<close>

definition path_filename :: "string \<Rightarrow> string" where
  "path_filename p = rev (takeWhile (\<lambda>c. c \<noteq> CHR ''/'') (rev p))"

definition path_stem :: "string \<Rightarrow> string" where
  "path_stem p =
     (let f = path_filename p in
      if f = ''.'' then f
      else if f = ''..'' then f
      else if CHR ''.'' \<in> set f then
        (let ext = takeWhile (\<lambda>c. c \<noteq> CHR ''.'') (rev f);
             st = take (length f - length ext - 1) f
         in if st = [] then f else st)
      else f)"

subsection \<open>The manager\<close>

definition call :: "event \<Rightarrow> state \<Rightarrow> state" where
  "call e s = s\<lparr>calls := calls s @ [e]\<rparr>"

definition unload_game :: "state \<Rightarrow> state" where
  "unload_game s = (if loaded s then (call JgGameUnload s)\<lparr>loaded := False\<rparr> else s)"

definition load_game :: "host \<Rightarrow> core \<Rightarrow> string \<Rightarrow> uint8 list \<Rightarrow> state \<Rightarrow> state" where
  "load_game h c filename game s =
     (let s = unload_game s;
          s = s\<lparr>gameinfo := (gameinfo s)\<lparr>fi_data := game\<rparr>\<rparr>;
          s = s\<lparr>gameinfo := (gameinfo s)\<lparr>fi_size := length game\<rparr>\<rparr>;
          s = s\<lparr>gameinfo := (gameinfo s)\<lparr>fi_crc := hasher_crc h game\<rparr>\<rparr>;
          s = s\<lparr>gamemd5 := hasher_md5 h game\<rparr>;
          s = s\<lparr>gameinfo := (gameinfo s)\<lparr>fi_md5 := gamemd5 s\<rparr>\<rparr>;
          s = s\<lparr>gamepath := filename\<rparr>;
          s = s\<lparr>gameinfo := (gameinfo s)\<lparr>fi_path := gamepath s\<rparr>\<rparr>;
          s = s\<lparr>gamename := path_stem filename\<rparr>;
          s = s\<lparr>gameinfo := (gameinfo s)\<lparr>fi_name := gamename s\<rparr>\<rparr>;
          s = s\<lparr>gamefname := path_filename filename\<rparr>;
          s = s\<lparr>gameinfo := (gameinfo s)\<lparr>fi_fname := gamefname s\<rparr>\<rparr>;
          s = call (JgSetGameinfo (gameinfo s)) s;
          r = ret_jg_game_load c (calls s);
          s = call JgGameLoad s
      in if r = 0 then unload_game s else s\<lparr>loaded := True\<rparr>)"

text \<open>Lines 115 to 120 of \<open>set_paths\<close>: the base path from the environment.\<close>

definition set_basepath :: "host \<Rightarrow> state \<Rightarrow> error + state" where
  "set_basepath h s =
     (case getenv h ''XDG_DATA_HOME'' of
        Some env_xdg_data \<Rightarrow> Inr (s\<lparr>basepath := env_xdg_data @ ''/nestopia''\<rparr>)
      | None \<Rightarrow>
          (case getenv h ''HOME'' of
             None \<Rightarrow> Inl NullString
           | Some home \<Rightarrow> Inr (s\<lparr>basepath := home @ ''/.local/share/nestopia''\<rparr>)))"

definition create_directories :: "host \<Rightarrow> string \<Rightarrow> state \<Rightarrow> error + state" where
  "create_directories h p s =
     (if fs_create_directories h p then Inr (call (CreateDirectories p) s)
      else Inl FilesystemError)"

text \<open>Lines 139 to 144: the core asset path.\<close>

definition set_corepath :: "host \<Rightarrow> state \<Rightarrow> error + state" where
  "set_corepath h s =
     (if fs_exists h ''NstDatabase.xml'' then
        (case getenv h ''PWD'' of
           None \<Rightarrow> Inl NullString
         | Some pwd \<Rightarrow> Inr (s\<lparr>corepath := pwd\<rparr>))
      else Inr (s\<lparr>corepath := NST_DATADIR h\<rparr>))"

definition then_do :: "error + state \<Rightarrow> (state \<Rightarrow> error + state) \<Rightarrow> error + state" where
  "then_do r f = (case r of Inl e \<Rightarrow> Inl e | Inr s \<Rightarrow> f s)"

definition set_paths :: "host \<Rightarrow> state \<Rightarrow> error + state" where
  "set_paths h s =
     then_do (set_basepath h s) (\<lambda>s.
     let s = s\<lparr>pathinfo := (pathinfo s)\<lparr>pi_base := basepath s\<rparr>\<rparr>;
         s = s\<lparr>pathinfo := (pathinfo s)\<lparr>pi_bios := basepath s\<rparr>\<rparr>;
         s = s\<lparr>pathinfo := (pathinfo s)\<lparr>pi_user := basepath s\<rparr>\<rparr>;
         s = s\<lparr>savepath := basepath s @ ''/save''\<rparr>;
         s = s\<lparr>pathinfo := (pathinfo s)\<lparr>pi_save := savepath s\<rparr>\<rparr>
     in
     then_do (create_directories h (savepath s) s) (\<lambda>s.
     then_do (create_directories h (basepath s @ ''/state'') s) (\<lambda>s.
     then_do (create_directories h (basepath s @ ''/screenshots'') s) (\<lambda>s.
     then_do (set_corepath h s) (\<lambda>s.
     let s = s\<lparr>pathinfo := (pathinfo s)\<lparr>pi_core := corepath s\<rparr>\<rparr>
     in Inr (call (JgSetPaths (pathinfo s)) s))))))"

text \<open>
  Modelled from the spec: the class declaration (jgmanager.h), with the initial value of
  \<open>loaded\<close>, is not among the sources; the specification starts the manager in the state
  Idle, so \<open>loaded\<close> is false before the constructor body runs. The strings and the settings
  vector are empty then. The calls made before the manager existed are kept.
\<close>

definition fresh :: "event list \<Rightarrow> state" where
  "fresh evs =
     \<lparr>loaded = False, basepath = [], savepath = [], corepath = [],
      pathinfo = \<lparr>pi_base = [], pi_bios = [], pi_user = [], pi_save = [], pi_core = []\<rparr>,
      gameinfo = \<lparr>fi_data = [], fi_size = 0, fi_crc = 0, fi_md5 = [], fi_path = [],
                  fi_name = [], fi_fname = []\<rparr>,
      gamepath = [], gamename = [], gamefname = [], gamemd5 = [],
      settings = [], calls = evs\<rparr>"

definition constructor :: "host \<Rightarrow> core \<Rightarrow> event list \<Rightarrow> error + state" where
  "constructor h c evs =
     then_do (set_paths h (fresh evs)) (\<lambda>s.
     let s = call JgGetSettings s;
         (jg_settings, numsettings) = ret_jg_get_settings c;
         s = s\<lparr>settings := settings s @ map (\<lambda>i. jg_settings + i) [0..<numsettings]\<rparr>;
         s = call JgSetCbFrametime s;
         s = call JgSetCbLog s;
         s = call JgInit s
     in Inr s)"

definition destructor :: "state \<Rightarrow> state" where
  "destructor s = unload_game (call JgDeinit s)"

definition init :: "core \<Rightarrow> state \<Rightarrow> int32 \<times> state" where
  "init c s = (ret_jg_init c (calls s), call JgInit s)"

definition is_loaded :: "state \<Rightarrow> bool" where
  "is_loaded s = loaded s"

definition get_basepath :: "state \<Rightarrow> string" where
  "get_basepath s = basepath s"

definition get_gamename :: "state \<Rightarrow> string" where
  "get_gamename s = gamename s"

text \<open>
  The scan of \<open>get_setting\<close> over the recorded pointers, first to last; \<open>None\<close> is
  \<open>nullptr\<close>.
\<close>

fun get_setting_scan :: "(nat \<Rightarrow> jg_setting_t) \<Rightarrow> nat list \<Rightarrow> string \<Rightarrow> nat option" where
  "get_setting_scan mem [] n = None"
| "get_setting_scan mem (p # ps) n =
     (if name (mem p) = n then Some p else get_setting_scan mem ps n)"

definition get_setting :: "core \<Rightarrow> string \<Rightarrow> state \<Rightarrow> nat option" where
  "get_setting c n s = get_setting_scan (core_mem c) (settings s) n"

definition exec_frame :: "state \<Rightarrow> state" where
  "exec_frame s = call JgExecFrame s"

definition reset :: "int32 \<Rightarrow> state \<Rightarrow> state" where
  "reset hard s = (if loaded s then call (JgReset hard) s else s)"

definition state_load :: "core \<Rightarrow> string \<Rightarrow> state \<Rightarrow> int32 \<times> state" where
  "state_load c filename s =
     (if \<not> loaded s then (2, s)
      else (ret_jg_state_load c (calls s) filename, call (JgStateLoad filename) s))"

definition state_qload :: "core \<Rightarrow> int32 \<Rightarrow> state \<Rightarrow> int32 \<times> state" where
  "state_qload c slot s =
     (if \<not> loaded s then (2, s)
      else
        let slotpath = basepath s @ ''/state/'' @ gamename s @ ''_'' @ to_string slot @ ''.nst'';
            (result, s) = state_load c slotpath s;
            s = (if result = 0 then call (LogDriverLog JG_LOG_SCR ''State Load Failed'') s
                 else if result = 1 then call (LogDriverLog JG_LOG_SCR ''State Loaded'') s
                 else call (LogDriverLog JG_LOG_SCR ''State Load Unknown'') s)
        in (result, s))"

definition state_save :: "core \<Rightarrow> string \<Rightarrow> state \<Rightarrow> int32 \<times> state" where
  "state_save c filename s =
     (if \<not> loaded s then (2, s)
      else (ret_jg_state_save c (calls s) filename, call (JgStateSave filename) s))"

definition state_qsave :: "core \<Rightarrow> int32 \<Rightarrow> state \<Rightarrow> int32 \<times> state" where
  "state_qsave c slot s =
     (if \<not> loaded s then (2, s)
      else
        let slotpath = basepath s @ ''/state/'' @ gamename s @ ''_'' @ to_string slot @ ''.nst'';
            (result, s) = state_save c slotpath s;
            s = (if result = 0 then call (LogDriverLog JG_LOG_SCR ''State Save Failed'') s
                 else if result = 1 then call (LogDriverLog JG_LOG_SCR ''State Saved'') s
                 else call (LogDriverLog JG_LOG_SCR ''State Save Unknown'') s)
        in (result, s))"

definition media_select :: "state \<Rightarrow> state" where
  "media_select s = (if \<not> loaded s then s else call JgMediaSelect s)"

definition media_insert :: "state \<Rightarrow> state" where
  "media_insert s = (if \<not> loaded s then s else call JgMediaInsert s)"

definition cheat_clear :: "state \<Rightarrow> state" where
  "cheat_clear s = call JgCheatClear s"

definition cheat_set :: "string \<Rightarrow> state \<Rightarrow> state" where
  "cheat_set code s = call (JgCheatSet code) s"

definition rehash :: "state \<Rightarrow> state" where
  "rehash s = (if loaded s then call JgRehash s else s)"

subsection \<open>The frame time\<close>

text \<open>
  The variable \<open>frametime\<close> of the anonymous namespace, initially 60, belongs to the
  process, not to a manager.
\<close>

record globals =
  frametime :: int

definition globals_init :: globals where
  "globals_init = \<lparr>frametime = 60\<rparr>"

text \<open>
  A \<open>double\<close>: a finite value, given by the real number it stands for, an infinity or a
  NaN.
\<close>

datatype double = Finite real | PlusInfinity | MinusInfinity | NaN

text \<open>
  The conversion of a finite \<open>double\<close> to \<open>int\<close> discards the fractional part, so it
  truncates toward zero. It is undefined (\<open>None\<close>) when the truncated value is not an
  \<open>int\<close>, that is, outside \<open>-2^31 - 1 < y < 2^31\<close> (2^31 is 2147483648).
\<close>

definition double_to_int :: "real \<Rightarrow> int option" where
  "double_to_int y =
     (if - 2147483649 < y \<and> y < 2147483648
      then Some (if y < 0 then - \<lfloor>- y\<rfloor> else \<lfloor>y\<rfloor>)
      else None)"

text \<open>
  \<open>jg_frametime\<close>: \<open>frametime = interval + 0.5\<close>. The sum is a \<open>double\<close> addition: the exact
  sum of a finite interval and one half, rounded to a \<open>double\<close> by \<open>rnd\<close>, the rounding of
  the machine (the identity on every value that is a \<open>double\<close>). The sum of an infinity or
  a NaN and one half is that infinity or a NaN, whose conversion to \<open>int\<close> is undefined.
\<close>

definition jg_frametime :: "(real \<Rightarrow> real) \<Rightarrow> double \<Rightarrow> globals \<Rightarrow> globals option" where
  "jg_frametime rnd interval g =
     (case interval of
        Finite x \<Rightarrow>
          (case double_to_int (rnd (x + 1 / 2)) of
             None \<Rightarrow> None
           | Some v \<Rightarrow> Some (g\<lparr>frametime := v\<rparr>))
      | PlusInfinity \<Rightarrow> None
      | MinusInfinity \<Rightarrow> None
      | NaN \<Rightarrow> None)"

definition get_frametime :: "globals \<Rightarrow> int" where
  "get_frametime g = frametime g"

subsection \<open>Reading a decimal numeral\<close>

text \<open>
  What it means for a string to be the decimal representation of a number, without zero
  padding: only digits, no leading zero unless the string is \<open>0\<close> itself, and the digits
  read back as the number.
\<close>

definition is_digit :: "char \<Rightarrow> bool" where
  "is_digit ch = (48 \<le> (of_char ch :: nat) \<and> (of_char ch :: nat) \<le> 57)"

definition digit_value :: "char \<Rightarrow> nat" where
  "digit_value ch = of_char ch - 48"

definition decimal_value :: "string \<Rightarrow> nat" where
  "decimal_value ds = foldl (\<lambda>a ch. 10 * a + digit_value ch) 0 ds"

definition canonical_digits :: "string \<Rightarrow> bool" where
  "canonical_digits ds =
     (ds \<noteq> [] \<and> list_all is_digit ds \<and> (ds = ''0'' \<or> hd ds \<noteq> CHR ''0''))"

subsection \<open>A mock core, a mock host and small managers\<close>

text \<open>
  A core that answers \<open>r\<close> to game-load, state-load and state-save and exports two
  settings, \<open>a\<close> at address 100 and \<open>b\<close> at address 101.
\<close>

definition mock_core :: "int32 \<Rightarrow> core" where
  "mock_core r =
     \<lparr>ret_jg_init = (\<lambda>evs. 1), ret_jg_game_load = (\<lambda>evs. r),
      ret_jg_state_load = (\<lambda>evs p. r), ret_jg_state_save = (\<lambda>evs p. r),
      ret_jg_get_settings = (100, 2),
      core_mem = (\<lambda>p. \<lparr>name = (if p = 100 then ''a'' else if p = 101 then ''b'' else [])\<rparr>)\<rparr>"

text \<open>A host with the given environment, a writable file system and no database file.\<close>

definition mock_host :: "(string \<rightharpoonup> string) \<Rightarrow> host" where
  "mock_host env =
     \<lparr>getenv = env, fs_exists = (\<lambda>p. False), fs_create_directories = (\<lambda>p. True),
      NST_DATADIR = ''/usr/share/nestopia'',
      hasher_crc = (\<lambda>bs. 0), hasher_md5 = (\<lambda>bs. [])\<rparr>"

definition idle :: state where
  "idle = fresh []"

definition running :: state where
  "running = (fresh [])\<lparr>loaded := True, basepath := ''/d/nestopia'', gamename := ''Alpha''\<rparr>"

definition two_settings :: state where
  "two_settings = (fresh [])\<lparr>settings := [100, 101]\<rparr>"

section \<open>Properties\<close>

subsection \<open>Commands on a manager without a game\<close>

text \<open>
  C1 (as amended). While no game is loaded, \<open>reset\<close>, \<open>media_select\<close> and \<open>media_insert\<close>
  return the state they were given: no member changes and no call is made. \<open>exec_frame\<close>
  has no guard: in every state, loaded or not, it changes no member of the manager and
  calls \<open>jg_exec_frame\<close> once.
\<close>

theorem unloaded_commands:
  "exec_frame s = s\<lparr>calls := calls s @ [JgExecFrame]\<rparr>
   \<and> (\<not> loaded s \<longrightarrow> reset hard s = s \<and> media_select s = s \<and> media_insert s = s)"
  by (simp add: reset_def media_select_def media_insert_def exec_frame_def call_def)

text \<open>C1, witness: the commands on the idle manager, and a frame on the running one.\<close>

theorem unloaded_commands_witness:
  "\<not> loaded idle \<and> reset 1 idle = idle \<and> media_select idle = idle
   \<and> media_insert idle = idle \<and> calls (exec_frame idle) = [JgExecFrame]
   \<and> loaded running \<and> calls (exec_frame running) = [JgExecFrame]
   \<and> loaded (exec_frame running)"
proof -
  have h: "\<not> loaded idle" "loaded running" "calls idle = []" "calls running = []"
    by (simp_all add: idle_def running_def fresh_def)
  show ?thesis
    using h unloaded_commands [of idle 1] unloaded_commands [of running 1]
    by simp
qed

text \<open>
  C1, counterexample: on the idle manager \<open>exec_frame\<close> is not a no-op, the core's
  \<open>jg_exec_frame\<close> is called.
\<close>

theorem exec_frame_unloaded_counterexample:
  "\<not> loaded idle \<and> exec_frame idle \<noteq> idle \<and> calls idle = []
   \<and> calls (exec_frame idle) = [JgExecFrame]"
  by (simp add: idle_def fresh_def exec_frame_def call_def)

text \<open>
  C8. While no game is loaded, \<open>state_load\<close> and \<open>state_save\<close> return 2 for every path
  and leave the state, with its record of calls, as it was: the core is not invoked.
\<close>

theorem state_load_save_unloaded:
  assumes "\<not> loaded s"
  shows "state_load c path s = (2, s) \<and> state_save c path s = (2, s)"
  using assms by (simp add: state_load_def state_save_def)

text \<open>C8, witness: scenario 1 of the specification.\<close>

theorem state_load_save_unloaded_witness:
  "\<not> loaded idle \<and> state_load (mock_core 1) ''x.nst'' idle = (2, idle)
   \<and> state_save (mock_core 1) ''x.nst'' idle = (2, idle) \<and> calls idle = []"
proof -
  have h: "\<not> loaded idle" by (simp add: idle_def fresh_def)
  show ?thesis
    using h state_load_save_unloaded [OF h, of "mock_core 1" "''x.nst''"]
    by (simp add: idle_def fresh_def)
qed

text \<open>
  C10. While no game is loaded, \<open>state_qload\<close> and \<open>state_qsave\<close> return 2 for every slot
  and leave the state as it was: no call to the core and no message to the log driver.
\<close>

theorem state_quick_unloaded:
  assumes "\<not> loaded s"
  shows "state_qload c slot s = (2, s) \<and> state_qsave c slot s = (2, s)"
  using assms by (simp add: state_qload_def state_qsave_def)

text \<open>C10, witness: slot 3 on the idle manager.\<close>

theorem state_quick_unloaded_witness:
  "\<not> loaded idle \<and> state_qload (mock_core 1) 3 idle = (2, idle)
   \<and> state_qsave (mock_core 1) 3 idle = (2, idle) \<and> calls idle = []"
proof -
  have h: "\<not> loaded idle" by (simp add: idle_def fresh_def)
  show ?thesis
    using h state_quick_unloaded [OF h, of "mock_core 1" 3]
    by (simp add: idle_def fresh_def)
qed

subsection \<open>Destruction\<close>

text \<open>
  C9. The destructor calls \<open>jg_deinit\<close> first; \<open>jg_game_unload\<close> follows it when a game was
  loaded, and nothing else is called. The manager ends unloaded.
\<close>

theorem destructor_deinit_before_unload:
  "calls (destructor s) = calls s @ JgDeinit # (if loaded s then [JgGameUnload] else [])
   \<and> \<not> loaded (destructor s)"
  by (simp add: destructor_def unload_game_def call_def)

text \<open>C9, witness: destroying a running and an idle manager.\<close>

theorem destructor_deinit_before_unload_witness:
  "calls (destructor running) = [JgDeinit, JgGameUnload] \<and> calls (destructor idle) = [JgDeinit]"
  using destructor_deinit_before_unload [of running] destructor_deinit_before_unload [of idle]
  by (simp add: running_def idle_def fresh_def)

subsection \<open>Loading a game\<close>

text \<open>
  The calls of \<open>load_game\<close>: an unload when a game was loaded, then set-gameinfo with the
  identity of the new game, then game-load. Nothing follows the game-load, whatever it
  returns: the \<open>unload_game\<close> of the failure branch runs while \<open>loaded\<close> is false.
\<close>

lemma load_game_calls:
  "\<exists>gi. calls (load_game h c filename game s) =
          calls s @ (if loaded s then [JgGameUnload] else []) @ [JgSetGameinfo gi, JgGameLoad]
      \<and> fi_data gi = game \<and> fi_size gi = length game \<and> fi_crc gi = hasher_crc h game
      \<and> fi_md5 gi = hasher_md5 h game \<and> fi_path gi = filename
      \<and> fi_name gi = path_stem filename \<and> fi_fname gi = path_filename filename
      \<and> loaded (load_game h c filename game s) =
          (ret_jg_game_load c (calls s @ (if loaded s then [JgGameUnload] else [])
             @ [JgSetGameinfo gi]) \<noteq> 0)"
  by (simp add: load_game_def unload_game_def call_def Let_def)

text \<open>
  C2, at the failing input: an idle manager and a core whose game-load returns 0. After
  \<open>load_game\<close> the manager is not loaded and the core has seen set-gameinfo and game-load
  only: \<open>jg_game_unload\<close> was not called.
\<close>

theorem load_game_failure_from_idle:
  "\<not> is_loaded (load_game (mock_host Map.empty) (mock_core 0) ''/tmp/Foo Bar.nes'' [0xDE, 0xAD] idle)
   \<and> calls (load_game (mock_host Map.empty) (mock_core 0) ''/tmp/Foo Bar.nes'' [0xDE, 0xAD] idle)
     = [JgSetGameinfo \<lparr>fi_data = [0xDE, 0xAD], fi_size = 2, fi_crc = 0, fi_md5 = [],
          fi_path = ''/tmp/Foo Bar.nes'', fi_name = ''Foo Bar'', fi_fname = ''Foo Bar.nes''\<rparr>,
        JgGameLoad]
   \<and> JgGameUnload \<notin> set (calls (load_game (mock_host Map.empty) (mock_core 0)
         ''/tmp/Foo Bar.nes'' [0xDE, 0xAD] idle))"
  by (simp add: load_game_def unload_game_def call_def Let_def is_loaded_def fresh_def idle_def
      mock_host_def mock_core_def path_stem_def path_filename_def)

subsection \<open>The base path\<close>

lemma then_do_Inr: "then_do r f = Inr s' \<longleftrightarrow> (\<exists>s. r = Inr s \<and> f s = Inr s')"
  by (cases r) (simp_all add: then_do_def)

lemma create_directories_Inr:
  "create_directories h p s = Inr s' \<longleftrightarrow>
     fs_create_directories h p \<and> s' = call (CreateDirectories p) s"
  by (auto simp: create_directories_def)

lemma set_corepath_basepath: "set_corepath h s = Inr s' \<Longrightarrow> basepath s' = basepath s"
  by (auto simp: set_corepath_def split: if_splits option.splits)

lemma basepath_call: "basepath (call e s) = basepath s"
  by (simp add: call_def)

lemma set_basepath_cases:
  assumes "set_basepath h s0 = Inr s"
  shows "case getenv h ''XDG_DATA_HOME'' of
           Some x \<Rightarrow> basepath s = x @ ''/nestopia''
         | None \<Rightarrow> \<exists>home. getenv h ''HOME'' = Some home
                      \<and> basepath s = home @ ''/.local/share/nestopia''"
  using assms by (auto simp: set_basepath_def split: option.splits)

lemma set_paths_keeps_basepath:
  assumes "set_paths h s0 = Inr s"
  shows "\<exists>s1. set_basepath h s0 = Inr s1 \<and> basepath s = basepath s1"
  using assms
  by (auto simp: set_paths_def then_do_Inr create_directories_Inr Let_def basepath_call
      dest!: set_corepath_basepath)

lemma constructor_keeps_basepath:
  assumes "constructor h c evs = Inr s"
  shows "\<exists>s1. set_paths h (fresh evs) = Inr s1 \<and> basepath s = basepath s1"
proof (cases "ret_jg_get_settings c")
  case (Pair jg_settings numsettings)
  with assms show ?thesis
    by (auto simp: constructor_def then_do_Inr Let_def basepath_call)
qed

text \<open>
  C3 (as amended). After a construction that finishes, the base path is
  \<open>$XDG_DATA_HOME/nestopia\<close> when \<open>XDG_DATA_HOME\<close> is set, whatever its value, the empty
  string included; when it is unset, \<open>HOME\<close> is set and the base path is
  \<open>$HOME/.local/share/nestopia\<close>.
\<close>

theorem constructor_basepath:
  assumes "constructor h c evs = Inr s"
  shows "case getenv h ''XDG_DATA_HOME'' of
           Some x \<Rightarrow> basepath s = x @ ''/nestopia''
         | None \<Rightarrow> \<exists>home. getenv h ''HOME'' = Some home
                      \<and> basepath s = home @ ''/.local/share/nestopia''"
proof -
  from assms obtain s1 where s1: "set_paths h (fresh evs) = Inr s1"
    and b1: "basepath s = basepath s1"
    using constructor_keeps_basepath by blast
  from s1 obtain s2 where s2: "set_basepath h (fresh evs) = Inr s2"
    and b2: "basepath s1 = basepath s2"
    using set_paths_keeps_basepath by blast
  from set_basepath_cases [OF s2] b1 b2 show ?thesis
    by (auto split: option.splits)
qed

text \<open>
  Construction finishes when one of the two variables is set, the directories can be
  created, and \<open>PWD\<close> is set in case the database file is in the working directory.
\<close>

lemma set_paths_succeeds:
  assumes "getenv h ''XDG_DATA_HOME'' \<noteq> None \<or> getenv h ''HOME'' \<noteq> None"
    and "\<And>p. fs_create_directories h p"
    and "fs_exists h ''NstDatabase.xml'' \<Longrightarrow> getenv h ''PWD'' \<noteq> None"
  shows "\<exists>s'. set_paths h s = Inr s'"
proof -
  from assms(1) have "\<exists>s1. set_basepath h s = Inr s1"
    by (cases "getenv h ''XDG_DATA_HOME''"; cases "getenv h ''HOME''")
       (simp_all add: set_basepath_def)
  then obtain s1 where s1: "set_basepath h s = Inr s1" by blast
  have core: "\<exists>s'. set_corepath h t = Inr s'" for t
    using assms(3) by (auto simp: set_corepath_def)
  show ?thesis
    using s1 assms(2) core
    by (simp add: set_paths_def then_do_Inr create_directories_Inr Let_def)
qed

lemma constructor_succeeds:
  assumes "getenv h ''XDG_DATA_HOME'' \<noteq> None \<or> getenv h ''HOME'' \<noteq> None"
    and "\<And>p. fs_create_directories h p"
    and "fs_exists h ''NstDatabase.xml'' \<Longrightarrow> getenv h ''PWD'' \<noteq> None"
  shows "\<exists>s. constructor h c evs = Inr s"
proof (cases "ret_jg_get_settings c")
  case (Pair jg_settings numsettings)
  from set_paths_succeeds [OF assms, of "fresh evs"]
  obtain s1 where "set_paths h (fresh evs) = Inr s1" by blast
  with Pair show ?thesis
    by (simp add: constructor_def then_do_Inr Let_def)
qed

text \<open>C3, witness: \<open>XDG_DATA_HOME=/d\<close>, and \<open>HOME=/home/u\<close> without \<open>XDG_DATA_HOME\<close>.\<close>

theorem constructor_basepath_witness:
  "map_sum id basepath (constructor (mock_host [''XDG_DATA_HOME'' \<mapsto> ''/d'']) (mock_core 1) [])
     = Inr ''/d/nestopia''
   \<and> map_sum id basepath (constructor (mock_host [''HOME'' \<mapsto> ''/home/u'']) (mock_core 1) [])
     = Inr ''/home/u/.local/share/nestopia''"
proof -
  obtain s where s: "constructor (mock_host [''XDG_DATA_HOME'' \<mapsto> ''/d'']) (mock_core 1) [] = Inr s"
    using constructor_succeeds [of "mock_host [''XDG_DATA_HOME'' \<mapsto> ''/d'']" "mock_core 1" "[]"]
    by (auto simp: mock_host_def)
  obtain t where t: "constructor (mock_host [''HOME'' \<mapsto> ''/home/u'']) (mock_core 1) [] = Inr t"
    using constructor_succeeds [of "mock_host [''HOME'' \<mapsto> ''/home/u'']" "mock_core 1" "[]"]
    by (auto simp: mock_host_def)
  show ?thesis
    using constructor_basepath [OF s] constructor_basepath [OF t] s t
    by (simp add: mock_host_def)
qed

text \<open>
  C3, counterexample: with \<open>XDG_DATA_HOME\<close> set to the empty string and \<open>HOME=/home/u\<close> the
  base path is \<open>/nestopia\<close>, not \<open>/home/u/.local/share/nestopia\<close>.
\<close>

theorem empty_xdg_data_home_counterexample:
  "getenv (mock_host [''XDG_DATA_HOME'' \<mapsto> [], ''HOME'' \<mapsto> ''/home/u'']) ''XDG_DATA_HOME'' = Some []
   \<and> getenv (mock_host [''XDG_DATA_HOME'' \<mapsto> [], ''HOME'' \<mapsto> ''/home/u'']) ''HOME'' = Some ''/home/u''
   \<and> map_sum id basepath
       (constructor (mock_host [''XDG_DATA_HOME'' \<mapsto> [], ''HOME'' \<mapsto> ''/home/u'']) (mock_core 1) [])
     = Inr ''/nestopia''
   \<and> map_sum id basepath
       (constructor (mock_host [''XDG_DATA_HOME'' \<mapsto> [], ''HOME'' \<mapsto> ''/home/u'']) (mock_core 1) [])
     \<noteq> Inr ''/home/u/.local/share/nestopia''"
  by (simp add: mock_host_def mock_core_def constructor_def set_paths_def then_do_def
      set_basepath_def create_directories_def set_corepath_def call_def fresh_def Let_def)

subsection \<open>Decimal numerals\<close>

lemma of_char_digit_char: "d < 10 \<Longrightarrow> (of_char (digit_char d) :: nat) = 48 + d"
  by (simp add: digit_char_def)

lemma is_digit_digit_char: "d < 10 \<Longrightarrow> is_digit (digit_char d)"
  by (simp add: is_digit_def of_char_digit_char)

lemma digit_value_digit_char: "d < 10 \<Longrightarrow> digit_value (digit_char d) = d"
  by (simp add: digit_value_def of_char_digit_char)

lemma digit_char_zero:
  assumes "d < 10"
  shows "digit_char d = CHR ''0'' \<longleftrightarrow> d = 0"
proof
  assume "digit_char d = CHR ''0''"
  then have "(of_char (digit_char d) :: nat) = of_char (CHR ''0'')" by simp
  with assms show "d = 0" by (simp add: of_char_digit_char)
next
  assume "d = 0"
  then show "digit_char d = CHR ''0''" by (simp add: digit_char_def char_of_eq_iff)
qed

lemma digits_nonempty: "digits n \<noteq> []"
  by (subst digits.simps) simp

lemma digits_all_digit: "list_all is_digit (digits n)"
proof (induction n rule: digits.induct)
  case (1 n)
  show ?case
  proof (cases "n < 10")
    case True
    then show ?thesis by (subst digits.simps) (simp add: is_digit_digit_char)
  next
    case False
    have "n mod 10 < 10" by simp
    then have "is_digit (digit_char (n mod 10))" by (rule is_digit_digit_char)
    with False "1.IH" show ?thesis by (subst digits.simps) simp
  qed
qed

lemma decimal_value_snoc: "decimal_value (ds @ [ch]) = 10 * decimal_value ds + digit_value ch"
  by (simp add: decimal_value_def)

lemma decimal_value_digits: "decimal_value (digits n) = n"
proof (induction n rule: digits.induct)
  case (1 n)
  show ?case
  proof (cases "n < 10")
    case True
    then show ?thesis
      by (subst digits.simps) (simp add: decimal_value_def digit_value_digit_char)
  next
    case False
    have "decimal_value (digits n) =
            10 * decimal_value (digits (n div 10)) + digit_value (digit_char (n mod 10))"
      using False by (subst digits.simps) (simp add: decimal_value_snoc)
    also have "\<dots> = 10 * (n div 10) + n mod 10"
      using False "1.IH" by (simp add: digit_value_digit_char)
    finally show ?thesis by simp
  qed
qed

lemma hd_digits_zero: "hd (digits n) = CHR ''0'' \<Longrightarrow> n = 0"
proof (induction n rule: digits.induct)
  case (1 n)
  show ?case
  proof (cases "n < 10")
    case True
    with "1.prems" have "digit_char n = CHR ''0''" by (subst (asm) digits.simps) simp
    with True show ?thesis by (simp add: digit_char_zero)
  next
    case False
    with "1.prems" have "hd (digits (n div 10)) = CHR ''0''"
      by (subst (asm) digits.simps) (simp add: digits_nonempty)
    with False "1.IH" have "n div 10 = 0" by simp
    with False show ?thesis by simp
  qed
qed

lemma canonical_digits_digits: "canonical_digits (digits n)"
proof -
  have "digits n = ''0'' \<or> hd (digits n) \<noteq> CHR ''0''"
  proof (cases "hd (digits n) = CHR ''0''")
    case True
    then have "n = 0" by (rule hd_digits_zero)
    then have "digits n = ''0''"
      by (subst digits.simps) (simp add: digit_char_def char_of_eq_iff)
    then show ?thesis by simp
  next
    case False
    then show ?thesis by simp
  qed
  then show ?thesis
    by (simp add: canonical_digits_def digits_nonempty digits_all_digit)
qed

lemma to_string_decimal:
  "\<exists>ds. to_string v = (if sint v < 0 then ''-'' else []) @ ds
        \<and> canonical_digits ds \<and> int (decimal_value ds) = \<bar>sint v\<bar>"
proof (cases "sint v < 0")
  case True
  then show ?thesis
    by (intro exI [of _ "digits (nat (- sint v))"])
       (simp add: to_string_def canonical_digits_digits decimal_value_digits)
next
  case False
  then show ?thesis
    by (intro exI [of _ "digits (nat (sint v))"])
       (simp add: to_string_def canonical_digits_digits decimal_value_digits)
qed

lemma to_string_3: "to_string 3 = ''3''"
  by (simp add: to_string_def digits.simps digit_char_def char_of_eq_iff)

subsection \<open>Quick slots\<close>

text \<open>
  With a game loaded, a quick save or load makes two calls: the state call on the slot
  path, then one message to the log driver.
\<close>

lemma state_qsave_loaded:
  assumes "loaded s"
  shows "state_qsave c slot s =
     (let p = basepath s @ ''/state/'' @ gamename s @ ''_'' @ to_string slot @ ''.nst'';
          r = ret_jg_state_save c (calls s) p
      in (r, s\<lparr>calls := calls s @ [JgStateSave p, LogDriverLog JG_LOG_SCR
            (if r = 0 then ''State Save Failed'' else if r = 1 then ''State Saved''
             else ''State Save Unknown'')]\<rparr>))"
  using assms by (simp add: state_qsave_def state_save_def call_def Let_def)

lemma state_qload_loaded:
  assumes "loaded s"
  shows "state_qload c slot s =
     (let p = basepath s @ ''/state/'' @ gamename s @ ''_'' @ to_string slot @ ''.nst'';
          r = ret_jg_state_load c (calls s) p
      in (r, s\<lparr>calls := calls s @ [JgStateLoad p, LogDriverLog JG_LOG_SCR
            (if r = 0 then ''State Load Failed'' else if r = 1 then ''State Loaded''
             else ''State Load Unknown'')]\<rparr>))"
  using assms by (simp add: state_qload_def state_load_def call_def Let_def)

text \<open>
  C4. With a game loaded, the path that \<open>state_qsave\<close> and \<open>state_qload\<close> hand to the core is
  \<open>base + "/state/" + gamename + "_" + to_string(slot) + ".nst"\<close>, and \<open>to_string(slot)\<close> is the
  decimal representation of the slot: a minus sign when the slot is negative, then digits
  without zero padding that read back as the slot's absolute value.
\<close>

theorem quick_slot_path:
  assumes "loaded s"
  shows "(\<exists>m. calls (snd (state_qsave c slot s)) = calls s @
            [JgStateSave (basepath s @ ''/state/'' @ gamename s @ ''_'' @ to_string slot @ ''.nst''), m])
       \<and> (\<exists>m. calls (snd (state_qload c slot s)) = calls s @
            [JgStateLoad (basepath s @ ''/state/'' @ gamename s @ ''_'' @ to_string slot @ ''.nst''), m])
       \<and> (\<exists>ds. to_string slot = (if sint slot < 0 then ''-'' else []) @ ds
              \<and> canonical_digits ds \<and> int (decimal_value ds) = \<bar>sint slot\<bar>)"
  using assms to_string_decimal [of slot]
  by (simp add: state_qsave_loaded state_qload_loaded Let_def)

text \<open>C4, witness: scenario 4 of the specification, slot 3 of the game \<open>Alpha\<close>.\<close>

theorem quick_slot_path_witness:
  "loaded running
   \<and> calls (snd (state_qsave (mock_core 1) 3 running)) =
       [JgStateSave ''/d/nestopia/state/Alpha_3.nst'', LogDriverLog JG_LOG_SCR ''State Saved'']
   \<and> calls (snd (state_qload (mock_core 1) 3 running)) =
       [JgStateLoad ''/d/nestopia/state/Alpha_3.nst'', LogDriverLog JG_LOG_SCR ''State Loaded'']
   \<and> canonical_digits (to_string 3) \<and> decimal_value (to_string 3) = 3"
proof -
  have h: "loaded running" by (simp add: running_def)
  have b: "basepath running = ''/d/nestopia''" "gamename running = ''Alpha''"
    "calls running = []"
    by (simp_all add: running_def fresh_def)
  have r: "ret_jg_state_save (mock_core 1) evs p = 1" "ret_jg_state_load (mock_core 1) evs p = 1"
    for evs p
    by (simp_all add: mock_core_def)
  have d: "canonical_digits ''3''" "decimal_value ''3'' = 3"
    by (simp_all add: canonical_digits_def is_digit_def decimal_value_def digit_value_def)
  show ?thesis
    using h quick_slot_path [OF h, of "mock_core 1" 3] d
    by (simp add: state_qsave_loaded state_qload_loaded Let_def b r to_string_3)
qed

text \<open>
  C7. With a game loaded, \<open>state_qsave\<close> and \<open>state_qload\<close> each send exactly one message to
  the log driver, of severity \<open>JG_LOG_SCR\<close>, after the state call; the returned status is the
  core's and it selects the text: 1 gives \<open>State Saved\<close> or \<open>State Loaded\<close>, 0 gives
  \<open>State Save Failed\<close> or \<open>State Load Failed\<close>, anything else \<open>State Save Unknown\<close> or
  \<open>State Load Unknown\<close>.
\<close>

theorem quick_slot_messages:
  assumes "loaded s"
  shows "(\<exists>p. calls (snd (state_qsave c slot s)) = calls s @
            [JgStateSave p, LogDriverLog JG_LOG_SCR
               (if fst (state_qsave c slot s) = 1 then ''State Saved''
                else if fst (state_qsave c slot s) = 0 then ''State Save Failed''
                else ''State Save Unknown'')]
            \<and> fst (state_qsave c slot s) = ret_jg_state_save c (calls s) p)
       \<and> (\<exists>p. calls (snd (state_qload c slot s)) = calls s @
            [JgStateLoad p, LogDriverLog JG_LOG_SCR
               (if fst (state_qload c slot s) = 1 then ''State Loaded''
                else if fst (state_qload c slot s) = 0 then ''State Load Failed''
                else ''State Load Unknown'')]
            \<and> fst (state_qload c slot s) = ret_jg_state_load c (calls s) p)"
  using assms by (simp add: state_qsave_loaded state_qload_loaded Let_def)

text \<open>C7, witness: cores that answer 1, 0 and 7.\<close>

theorem quick_slot_messages_witness:
  "loaded running
   \<and> calls (snd (state_qsave (mock_core 1) 3 running)) =
       [JgStateSave ''/d/nestopia/state/Alpha_3.nst'', LogDriverLog JG_LOG_SCR ''State Saved'']
   \<and> calls (snd (state_qsave (mock_core 0) 3 running)) =
       [JgStateSave ''/d/nestopia/state/Alpha_3.nst'', LogDriverLog JG_LOG_SCR ''State Save Failed'']
   \<and> calls (snd (state_qsave (mock_core 7) 3 running)) =
       [JgStateSave ''/d/nestopia/state/Alpha_3.nst'', LogDriverLog JG_LOG_SCR ''State Save Unknown'']
   \<and> calls (snd (state_qload (mock_core 1) 3 running)) =
       [JgStateLoad ''/d/nestopia/state/Alpha_3.nst'', LogDriverLog JG_LOG_SCR ''State Loaded'']
   \<and> calls (snd (state_qload (mock_core 0) 3 running)) =
       [JgStateLoad ''/d/nestopia/state/Alpha_3.nst'', LogDriverLog JG_LOG_SCR ''State Load Failed'']
   \<and> calls (snd (state_qload (mock_core 7) 3 running)) =
       [JgStateLoad ''/d/nestopia/state/Alpha_3.nst'', LogDriverLog JG_LOG_SCR ''State Load Unknown'']"
proof -
  have h: "loaded running" by (simp add: running_def)
  have b: "basepath running = ''/d/nestopia''" "gamename running = ''Alpha''"
    "calls running = []"
    by (simp_all add: running_def fresh_def)
  have r: "ret_jg_state_save (mock_core x) evs p = x" "ret_jg_state_load (mock_core x) evs p = x"
    for x evs p
    by (simp_all add: mock_core_def)
  show ?thesis
    using h quick_slot_messages [OF h, of "mock_core 1" 3]
    by (simp add: state_qsave_loaded state_qload_loaded Let_def b r to_string_3)
qed

subsection \<open>The frame time callback\<close>

lemma double_to_int_in_range:
  assumes "- 2147483649 < y" and "y < 2147483648"
  shows "double_to_int y = Some (if y < 0 then \<lceil>y\<rceil> else \<lfloor>y\<rfloor>)"
  using assms by (simp add: double_to_int_def ceiling_def)

lemma double_to_int_int32:
  assumes "double_to_int y = Some v"
  shows "- 2147483648 \<le> v \<and> v < 2147483648"
proof -
  from assms have r: "- 2147483649 < y" "y < 2147483648"
    and v: "v = (if y < 0 then \<lceil>y\<rceil> else \<lfloor>y\<rfloor>)"
    by (auto simp: double_to_int_def ceiling_def split: if_splits)
  show ?thesis
  proof (cases "y < 0")
    case True
    from r(1) have "(- 2147483649 :: real) < y" by simp
    then have "real_of_int (- 2147483649) < y" by simp
    then have "- 2147483649 < \<lceil>y\<rceil>" by (simp only: less_ceiling_iff)
    moreover from True have "\<lceil>y\<rceil> \<le> 0" by (simp add: ceiling_le_iff)
    ultimately show ?thesis using True v by simp
  next
    case False
    from r(2) have "y < real_of_int (2147483648)" by simp
    then have "\<lfloor>y\<rfloor> < 2147483648" by (simp only: floor_less_iff)
    moreover from False have "0 \<le> \<lfloor>y\<rfloor>" by simp
    ultimately show ?thesis using False v by simp
  qed
qed

text \<open>
  C5 (as amended). Let \<open>y\<close> be the \<open>double\<close> sum of a finite interval \<open>x\<close> and one half. When
  \<open>y\<close> lies strictly between \<open>-2^31 - 1\<close> and \<open>2^31\<close>, the callback stores \<open>y\<close> truncated
  toward zero, which \<open>get_frametime\<close> returns: the floor of \<open>y\<close> when \<open>y\<close> is not negative,
  its ceiling when it is negative. So the stored value is the floor of \<open>x + 0.5\<close> when the
  sum is exact and \<open>x\<close> is at least \<open>-0.5\<close>.
\<close>

theorem jg_frametime_truncates:
  assumes "- 2147483649 < rnd (x + 1 / 2)" and "rnd (x + 1 / 2) < 2147483648"
  shows "\<exists>g'. jg_frametime rnd (Finite x) g = Some g'
           \<and> get_frametime g' =
               (if rnd (x + 1 / 2) < 0 then \<lceil>rnd (x + 1 / 2)\<rceil> else \<lfloor>rnd (x + 1 / 2)\<rfloor>)
           \<and> (rnd (x + 1 / 2) = x + 1 / 2 \<and> - 1 / 2 \<le> x \<longrightarrow>
                get_frametime g' = \<lfloor>x + 1 / 2\<rfloor>)"
  using double_to_int_in_range [OF assms]
  by (auto simp: jg_frametime_def get_frametime_def)

text \<open>
  C5, witness: the intervals 16.75 and 59.25, near those of scenario 5 of the
  specification, and -1; the three sums are exact.
\<close>

theorem jg_frametime_truncates_witness:
  "map_option get_frametime (jg_frametime (\<lambda>r. r) (Finite (67 / 4)) globals_init) = Some 17
   \<and> map_option get_frametime (jg_frametime (\<lambda>r. r) (Finite (237 / 4)) globals_init) = Some 59
   \<and> map_option get_frametime (jg_frametime (\<lambda>r. r) (Finite (- 1)) globals_init) = Some 0
   \<and> get_frametime globals_init = 60"
proof -
  have f: "\<lfloor>69 / 4 :: real\<rfloor> = 17" "\<lfloor>239 / 4 :: real\<rfloor> = 59" "\<lceil>- (1 / 2) :: real\<rceil> = 0"
    by (simp_all add: ceiling_def)
  show ?thesis
    using jg_frametime_truncates [of "\<lambda>r. r" "67 / 4" globals_init]
      jg_frametime_truncates [of "\<lambda>r. r" "237 / 4" globals_init]
      jg_frametime_truncates [of "\<lambda>r. r" "- 1" globals_init] f
    by (auto simp: get_frametime_def globals_init_def)
qed

text \<open>
  C5, counterexample: the interval -1, whose sum with one half is exactly -0.5. The
  callback stores 0; the floor of \<open>x + 0.5\<close> is -1.
\<close>

theorem jg_frametime_floor_counterexample:
  "map_option get_frametime (jg_frametime (\<lambda>r. r) (Finite (- 1)) globals_init) = Some 0
   \<and> \<lfloor>(- 1 :: real) + 1 / 2\<rfloor> = - 1
   \<and> map_option get_frametime (jg_frametime (\<lambda>r. r) (Finite (- 1)) globals_init)
       \<noteq> Some \<lfloor>(- 1 :: real) + 1 / 2\<rfloor>"
  by (simp add: jg_frametime_def double_to_int_def get_frametime_def globals_init_def)

subsection \<open>Settings\<close>

lemma get_setting_scan_Some:
  "get_setting_scan mem ps n = Some q \<Longrightarrow> q \<in> set ps \<and> name (mem q) = n"
  by (induction ps) (auto split: if_splits)

lemma get_setting_scan_None:
  "get_setting_scan mem ps n = None \<longleftrightarrow> (\<forall>p\<in>set ps. name (mem p) \<noteq> n)"
  by (induction ps) auto

text \<open>
  C6. When a recorded pointer has a descriptor named \<open>n\<close>, \<open>get_setting\<close> returns a recorded
  pointer whose descriptor is named \<open>n\<close>; when none has, it returns the null pointer; a
  pointer it returns is always a recorded one whose descriptor is named \<open>n\<close>.
\<close>

theorem get_setting_lookup:
  "((\<exists>p\<in>set (settings s). name (core_mem c p) = n) \<longrightarrow>
      (\<exists>q. get_setting c n s = Some q \<and> q \<in> set (settings s) \<and> name (core_mem c q) = n))
   \<and> ((\<forall>p\<in>set (settings s). name (core_mem c p) \<noteq> n) \<longrightarrow> get_setting c n s = None)
   \<and> (\<forall>q. get_setting c n s = Some q \<longrightarrow> q \<in> set (settings s) \<and> name (core_mem c q) = n)"
proof (intro conjI impI allI)
  assume "\<exists>p\<in>set (settings s). name (core_mem c p) = n"
  then have "get_setting_scan (core_mem c) (settings s) n \<noteq> None"
    by (simp add: get_setting_scan_None)
  then obtain q where q: "get_setting_scan (core_mem c) (settings s) n = Some q"
    by blast
  with get_setting_scan_Some [OF q]
  show "\<exists>q. get_setting c n s = Some q \<and> q \<in> set (settings s) \<and> name (core_mem c q) = n"
    by (simp add: get_setting_def)
next
  assume "\<forall>p\<in>set (settings s). name (core_mem c p) \<noteq> n"
  then show "get_setting c n s = None"
    by (simp add: get_setting_def get_setting_scan_None)
next
  fix q assume "get_setting c n s = Some q"
  then show "q \<in> set (settings s)" "name (core_mem c q) = n"
    by (simp_all add: get_setting_def get_setting_scan_Some)
qed

text \<open>C6, witness: scenario 6 of the specification, settings \<open>a\<close> and \<open>b\<close>.\<close>

theorem get_setting_lookup_witness:
  "settings two_settings = [100, 101]
   \<and> name (core_mem (mock_core 1) 100) = ''a'' \<and> name (core_mem (mock_core 1) 101) = ''b''
   \<and> get_setting (mock_core 1) ''b'' two_settings = Some 101
   \<and> get_setting (mock_core 1) ''c'' two_settings = None"
  using get_setting_lookup [of two_settings "mock_core 1" "''b''"]
    get_setting_lookup [of two_settings "mock_core 1" "''c''"]
  by (simp add: two_settings_def fresh_def mock_core_def get_setting_def)

end
